theory Spec2Isabelle
  imports Main
begin

section \<open>JavaScript values and failures\<close>

text \<open>
  A TypeScript slot of type \<open>T\<close> compiled without strict null checks holds
  \<open>undefined\<close>, \<open>null\<close> or a value of \<open>T\<close>. The source distinguishes the two
  empty values (\<open>=== undefined\<close>, \<open>=== null\<close>), so the model keeps both.
\<close>

datatype 'a nullable = Undefined | Null | Val 'a

text \<open>\<open>if (x)\<close> for a slot holding an object reference: every object is truthy.\<close>

fun truthy :: "'a nullable \<Rightarrow> bool" where
  "truthy (Val _) = True"
| "truthy _ = False"

text \<open>\<open>if (s)\<close> for a slot holding a string: the empty string is falsy too.\<close>

fun truthy_str :: "string nullable \<Rightarrow> bool" where
  "truthy_str (Val s) = (s \<noteq> [])"
| "truthy_str _ = False"

text \<open>
  \<open>throw Reporter.error(code, ...params)\<close> is \<open>ReporterError code params\<close>; reading a
  property of \<open>null\<close> or \<open>undefined\<close> is the engine's own \<open>TypeError\<close>.
\<close>

datatype error = ReporterError nat "string list" | TypeError

section \<open>InstanceProvider\<close>

text \<open>The field \<open>instance\<close> is written \<open>instance_fld\<close>: \<open>instance\<close> is a keyword of Isabelle.\<close>

record 'a InstanceProvider =
  instance_fld :: "'a nullable"

text \<open>\<open>new InstanceProvider()\<close>: the field initialiser is \<open>instance: T = null\<close>.\<close>

definition InstanceProvider_new :: "'a InstanceProvider" where
  "InstanceProvider_new = \<lparr> instance_fld = Null \<rparr>"

definition InstanceProvider_prepare :: "'a nullable \<Rightarrow> 'a InstanceProvider \<Rightarrow> 'a InstanceProvider" where
  "InstanceProvider_prepare x p = p\<lparr> instance_fld := x \<rparr>"

definition InstanceProvider_resolve :: "'a InstanceProvider \<Rightarrow> error + 'a nullable" where
  "InstanceProvider_resolve p =
     (if instance_fld p = Undefined then Inl (ReporterError 50 []) else Inr (instance_fld p))"

definition InstanceProvider_dispose :: "'a InstanceProvider \<Rightarrow> 'a InstanceProvider" where
  "InstanceProvider_dispose p = p\<lparr> instance_fld := Null \<rparr>"

section \<open>Definitions, compilers, templates and view factories\<close>

text \<open>
  \<open>definition.template\<close> is markup or a node; \<open>if (definition.template)\<close> is false
  for \<open>undefined\<close>, \<open>null\<close> and the empty string.
\<close>

datatype payload = Markup string | NodeTemplate nat

fun has_template :: "payload nullable \<Rightarrow> bool" where
  "has_template (Val (Markup s)) = (s \<noteq> [])"
| "has_template (Val (NodeTemplate _)) = True"
| "has_template _ = False"

record build_options =
  required :: bool
  compiler :: "string nullable"

text \<open>
  A \<open>TemplateDefinition\<close>: the fields this module reads. \<open>cache\<close> is only handed on to
  \<open>ViewFactory.setCacheSize\<close>; \<open>dependencies\<close> are the registrations handed to
  \<open>context.register\<close>, named by number.
\<close>

record TemplateDefinition =
  def_name :: "string nullable"
  template :: "payload nullable"
  cache :: int
  build :: build_options
  dependencies :: "nat list nullable"

text \<open>
  A resolution context is either a container this module did not create (the
  application's root container, say) or a render context made by
  \<open>createRenderContext\<close>, which lives in the engine's store of contexts.
\<close>

datatype ctx = Container nat | Child nat

text \<open>\<open>a || b\<close> on strings.\<close>

fun or_default :: "string nullable \<Rightarrow> string \<Rightarrow> string" where
  "or_default (Val s) d = (if s = [] then d else s)"
| "or_default _ d = d"

text \<open>\<open>a || b\<close> on contexts.\<close>

fun or_ctx :: "ctx nullable \<Rightarrow> ctx \<Rightarrow> ctx" where
  "or_ctx (Val c) d = c"
| "or_ctx _ d = d"

definition defaultCompilerName :: string where
  "defaultCompilerName = ''default''"

text \<open>
  A pluggable compiler: its name and its \<open>compile\<close> method, which receives the
  definition and the resource lookup over the parent context (the third argument of the
  source is the constant \<open>ViewCompileFlags.surrogate\<close>). Its contract is
  \<open>compile(definition, resources, flags) \<rightarrow> TemplateDefinition\<close>.
\<close>

record TemplateCompiler =
  cname :: string
  compile :: "TemplateDefinition \<Rightarrow> ctx \<Rightarrow> TemplateDefinition"

datatype NodeSequenceFactory = NodeSequenceFactory_createFor "payload nullable"

datatype NodeSequence = NodeSequence_empty | createNodeSequence NodeSequenceFactory

text \<open>
  The two implementations of \<open>ITemplate\<close>. A \<open>CompiledTemplate\<close> is an object with
  read-only fields, so it is a value carrying the reference \<open>ct_ref\<close> it was allocated
  at; \<open>ct_renderContext\<close> is the address of its render context in the store.
\<close>

record CompiledTemplate =
  ct_ref :: nat
  ct_factory :: NodeSequenceFactory
  ct_renderContext :: nat
  templateDefinition :: TemplateDefinition

datatype ITemplate = noViewTemplate | Compiled CompiledTemplate

fun renderContext :: "ITemplate \<Rightarrow> nat nullable" where
  "renderContext noViewTemplate = Null"
| "renderContext (Compiled t) = Val (ct_renderContext t)"

text \<open>
  \<open>new ViewFactory(name, template)\<close> followed by \<open>setCacheSize(size, true)\<close>: the
  class is not part of this module, the record keeps what it was built from.
\<close>

record ViewFactory =
  vf_ref :: nat
  vf_name :: "string nullable"
  vf_template :: ITemplate
  vf_cacheSize :: int

section \<open>ViewFactoryProvider and render contexts\<close>

text \<open>
  \<open>TemplatePartDefinitions\<close>: an ordinary object, given here by its own properties.
  An own property holds \<open>undefined\<close>, \<open>null\<close> or a reference to an object. The object
  inherits from \<open>Object.prototype\<close>, so reading a name it does not own goes on to the
  prototype: see \<open>get_property\<close> below.
\<close>

type_synonym TemplatePartDefinitions = "string \<rightharpoonup> nat nullable"

text \<open>
  \<open>PLATFORM.emptyObject\<close> is not part of this module: it is a frozen ordinary object
  without own properties, which inherits from \<open>Object.prototype\<close> like any other.
\<close>

definition emptyObject :: TemplatePartDefinitions where
  "emptyObject = Map.empty"

text \<open>The names that every ordinary object inherits from \<open>Object.prototype\<close>.\<close>

definition Object_prototype_names :: "string list" where
  "Object_prototype_names =
     [''constructor'', ''hasOwnProperty'', ''isPrototypeOf'', ''propertyIsEnumerable'',
      ''toLocaleString'', ''toString'', ''valueOf'', ''__proto__'',
      ''__defineGetter__'', ''__defineSetter__'', ''__lookupGetter__'', ''__lookupSetter__'']"

record ViewFactoryProvider =
  factory :: "ViewFactory nullable"
  replacements :: "TemplatePartDefinitions nullable"

text \<open>The constructor initialises neither field: both read as \<open>undefined\<close>.\<close>

definition ViewFactoryProvider_new :: ViewFactoryProvider where
  "ViewFactoryProvider_new = \<lparr> factory = Undefined, replacements = Undefined \<rparr>"

definition ViewFactoryProvider_prepare ::
  "ViewFactory nullable \<Rightarrow> TemplatePartDefinitions nullable \<Rightarrow> ViewFactoryProvider \<Rightarrow> ViewFactoryProvider" where
  "ViewFactoryProvider_prepare f parts p =
     p\<lparr> factory := f, replacements := (if truthy parts then parts else Val emptyObject) \<rparr>"

definition ViewFactoryProvider_dispose :: "ViewFactoryProvider \<Rightarrow> ViewFactoryProvider" where
  "ViewFactoryProvider_dispose p = p\<lparr> factory := Null, replacements := Null \<rparr>"

text \<open>
  The context made by \<open>createRenderContext\<close>: its parent, what was registered into it
  (\<open>context.register(...dependencies)\<close> and \<open>componentType.register(context)\<close>), and
  the five providers its closures hold.
\<close>

record RenderContext =
  parent :: ctx
  registered :: "nat list"
  renderableProvider :: "nat InstanceProvider"
  elementProvider :: "nat InstanceProvider"
  instructionProvider :: "nat InstanceProvider"
  factoryProvider :: ViewFactoryProvider
  renderLocationProvider :: "nat InstanceProvider"

definition beginComponentOperation ::
  "nat nullable \<Rightarrow> nat nullable \<Rightarrow> nat nullable \<Rightarrow> ViewFactory nullable
     \<Rightarrow> TemplatePartDefinitions nullable \<Rightarrow> nat nullable \<Rightarrow> RenderContext \<Rightarrow> RenderContext" where
  "beginComponentOperation renderable target instruction fac parts location c =
     (let c1 = c\<lparr> renderableProvider := InstanceProvider_prepare renderable (renderableProvider c) \<rparr>;
          c2 = c1\<lparr> elementProvider := InstanceProvider_prepare target (elementProvider c1) \<rparr>;
          c3 = c2\<lparr> instructionProvider := InstanceProvider_prepare instruction (instructionProvider c2) \<rparr>;
          c4 = (if truthy fac
                then c3\<lparr> factoryProvider := ViewFactoryProvider_prepare fac parts (factoryProvider c3) \<rparr>
                else c3)
      in if truthy location
         then c4\<lparr> renderLocationProvider := InstanceProvider_prepare location (renderLocationProvider c4) \<rparr>
         else c4)"

definition RenderContext_dispose :: "RenderContext \<Rightarrow> RenderContext" where
  "RenderContext_dispose c =
     c\<lparr> factoryProvider := ViewFactoryProvider_dispose (factoryProvider c),
        renderableProvider := InstanceProvider_dispose (renderableProvider c),
        instructionProvider := InstanceProvider_dispose (instructionProvider c),
        elementProvider := InstanceProvider_dispose (elementProvider c),
        renderLocationProvider := InstanceProvider_dispose (renderLocationProvider c) \<rparr>"

section \<open>RenderingEngine\<close>

text \<open>
  Which object \<open>compile\<close> was handed: the caller's definition itself
  (\<open>getElementTemplate\<close>), or the new object that \<open>buildTemplateDefinition\<close> made from
  it (\<open>getViewFactory\<close>).
\<close>

datatype compile_arg = Given nat | Normalized nat

type_synonym compile_call = "string \<times> compile_arg \<times> ctx"

text \<open>
  The engine's three fields that the operations below use, together with the part of
  the heap they allocate into: \<open>contexts\<close> holds the render contexts made so far,
  \<open>next_ref\<close> is the next free object reference, and \<open>compile_log\<close> lists every call of
  a compiler's \<open>compile\<close> in order.
\<close>

record RenderingEngine =
  templateLookup :: "nat \<rightharpoonup> ITemplate"
  factoryLookup :: "nat \<rightharpoonup> ViewFactory"
  compilers :: "string \<rightharpoonup> TemplateCompiler"
  container :: ctx
  contexts :: "nat \<rightharpoonup> RenderContext"
  next_ref :: nat
  compile_log :: "compile_call list"

text \<open>
  The constructor: \<open>templateCompilers.reduce((acc, item) => { acc[item.name] = item;
  return acc }, Object.create(null))\<close>.
\<close>

definition RenderingEngine_new :: "ctx \<Rightarrow> TemplateCompiler list \<Rightarrow> RenderingEngine" where
  "RenderingEngine_new cont templateCompilers =
     \<lparr> templateLookup = Map.empty,
       factoryLookup = Map.empty,
       compilers = foldl (\<lambda>acc item. acc(cname item \<mapsto> item)) Map.empty templateCompilers,
       container = cont,
       contexts = Map.empty,
       next_ref = 0,
       compile_log = [] \<rparr>"

text \<open>
  What this module takes from outside: the objects handed in as definitions, by
  reference (they are immutable; \<open>defs\<close> gives the fields that are read off an object),
  \<open>buildTemplateDefinition(null, definition)\<close>, which fills in defaults, and
  \<open>prototype_value\<close>, the reference of the object that \<open>Object.prototype\<close> holds
  under each of its names (the function \<open>Object\<close> under \<open>constructor\<close>, and so on).
\<close>

record env =
  defs :: "nat \<Rightarrow> TemplateDefinition"
  buildTemplateDefinition :: "TemplateDefinition \<Rightarrow> TemplateDefinition"
  prototype_value :: "string \<Rightarrow> nat"

text \<open>
  \<open>object[name]\<close> on an ordinary object: the own property if there is one, whatever it
  holds; otherwise what \<open>Object.prototype\<close> holds under the name; otherwise
  \<open>undefined\<close>. The source reads \<open>this.replacements[factory.name]\<close> this way, with no
  test for an own property.
\<close>

definition get_property :: "env \<Rightarrow> TemplatePartDefinitions \<Rightarrow> string \<Rightarrow> nat nullable" where
  "get_property E object n =
     (case object n of
        Some v \<Rightarrow> v
      | None \<Rightarrow> if n \<in> set Object_prototype_names then Val (prototype_value E n) else Undefined)"

definition createRenderContext ::
  "RenderingEngine \<Rightarrow> ctx \<Rightarrow> nat list nullable \<Rightarrow> nat \<times> RenderingEngine" where
  "createRenderContext s parentRenderContext deps =
     (let r = next_ref s;
          c = \<lparr> parent = parentRenderContext,
                registered = (case deps of Val ds \<Rightarrow> ds | _ \<Rightarrow> []),
                renderableProvider = InstanceProvider_new,
                elementProvider = InstanceProvider_new,
                instructionProvider = InstanceProvider_new,
                factoryProvider = ViewFactoryProvider_new,
                renderLocationProvider = InstanceProvider_new \<rparr>
      in (r, s\<lparr> contexts := (contexts s)(r \<mapsto> c), next_ref := Suc r \<rparr>))"

text \<open>The constructor of \<open>CompiledTemplate\<close>.\<close>

definition CompiledTemplate_new ::
  "RenderingEngine \<Rightarrow> ctx \<Rightarrow> TemplateDefinition \<Rightarrow> ITemplate \<times> RenderingEngine" where
  "CompiledTemplate_new s parentRenderContext d =
     (let r = next_ref s;
          (c, s1) = createRenderContext (s\<lparr> next_ref := Suc r \<rparr>) parentRenderContext (dependencies d)
      in (Compiled \<lparr> ct_ref = r,
                      ct_factory = NodeSequenceFactory_createFor (template d),
                      ct_renderContext = c,
                      templateDefinition = d \<rparr>, s1))"

definition templateFromSource ::
  "RenderingEngine \<Rightarrow> (compile_arg \<times> TemplateDefinition) nullable \<Rightarrow> ctx nullable
     \<Rightarrow> error + (ITemplate \<times> RenderingEngine)" where
  "templateFromSource s src parentContext =
     (let pc = or_ctx parentContext (container s) in
      case src of
        Val (ident, d) \<Rightarrow>
          if has_template (template d) then
            if required (build d) then
              (let compilerName = or_default (compiler (build d)) defaultCompilerName in
               case compilers s compilerName of
                 None \<Rightarrow> Inl (ReporterError 20 [compilerName])
               | Some c \<Rightarrow>
                   Inr (CompiledTemplate_new
                          (s\<lparr> compile_log := compile_log s @ [(compilerName, ident, pc)] \<rparr>)
                          pc (compile c d pc)))
            else Inr (CompiledTemplate_new s pc d)
          else Inr (noViewTemplate, s)
      | _ \<Rightarrow> Inr (noViewTemplate, s))"

text \<open>\<open>componentType.register(context)\<close> on the render context at address \<open>c\<close>.\<close>

definition register_type :: "nat \<Rightarrow> nat \<Rightarrow> RenderingEngine \<Rightarrow> RenderingEngine" where
  "register_type componentType c s =
     (case contexts s c of
        Some rc \<Rightarrow> s\<lparr> contexts := (contexts s)(c \<mapsto> rc\<lparr> registered := registered rc @ [componentType] \<rparr>) \<rparr>
      | None \<Rightarrow> s)"

definition getElementTemplate ::
  "env \<Rightarrow> RenderingEngine \<Rightarrow> nat nullable \<Rightarrow> nat nullable
     \<Rightarrow> error + (ITemplate nullable \<times> RenderingEngine)" where
  "getElementTemplate E s dref componentType =
     (case dref of
        Val d \<Rightarrow>
          (case templateLookup s d of
             Some found \<Rightarrow> Inr (Val found, s)
           | None \<Rightarrow>
               (case templateFromSource s (Val (Given d, defs E d)) Undefined of
                  Inl e \<Rightarrow> Inl e
                | Inr (found, s1) \<Rightarrow>
                    (let s2 = (case (renderContext found, componentType) of
                                 (Val c, Val t) \<Rightarrow> register_type t c s1
                               | _ \<Rightarrow> s1)
                     in Inr (Val found, s2\<lparr> templateLookup := (templateLookup s2)(d \<mapsto> found) \<rparr>))))
      | _ \<Rightarrow> Inr (Null, s))"

definition getViewFactory ::
  "env \<Rightarrow> RenderingEngine \<Rightarrow> nat nullable \<Rightarrow> ctx nullable
     \<Rightarrow> error + (ViewFactory nullable \<times> RenderingEngine)" where
  "getViewFactory E s dref parentContext =
     (case dref of
        Val d \<Rightarrow>
          (case factoryLookup s d of
             Some f \<Rightarrow> Inr (Val f, s)
           | None \<Rightarrow>
               (let validSource = buildTemplateDefinition E (defs E d) in
                case templateFromSource s (Val (Normalized d, validSource)) parentContext of
                  Inl e \<Rightarrow> Inl e
                | Inr (t, s1) \<Rightarrow>
                    (let f = \<lparr> vf_ref = next_ref s1,
                               vf_name = def_name validSource,
                               vf_template = t,
                               vf_cacheSize = cache validSource \<rparr>
                     in Inr (Val f, s1\<lparr> factoryLookup := (factoryLookup s1)(d \<mapsto> f),
                                         next_ref := Suc (next_ref s1) \<rparr>))))
      | _ \<Rightarrow> Inr (Null, s))"

definition ViewFactoryProvider_resolve ::
  "env \<Rightarrow> RenderingEngine \<Rightarrow> ViewFactoryProvider \<Rightarrow> ctx
     \<Rightarrow> error + (ViewFactory nullable \<times> RenderingEngine)" where
  "ViewFactoryProvider_resolve E s p requestor =
     (case factory p of
        Undefined \<Rightarrow> Inl (ReporterError 50 [])
      | Null \<Rightarrow> Inl TypeError
      | Val f \<Rightarrow>
          (case vf_name f of
             Val n \<Rightarrow>
               if n = [] then Inl (ReporterError 51 [])
               else
                 (case replacements p of
                    Val parts \<Rightarrow>
                      (case get_property E parts n of
                         Val found \<Rightarrow> getViewFactory E s (Val found) (Val requestor)
                       | _ \<Rightarrow> Inr (factory p, s))
                  | _ \<Rightarrow> Inl TypeError)
           | _ \<Rightarrow> Inl (ReporterError 51 [])))"

section \<open>Sequences of calls on one engine\<close>

text \<open>
  The calls that reach the engine's state: the two lookups, the two operations of a
  render context, and resolving the view factory of a render context. A call that
  throws leaves the state as it was: every \<open>throw\<close> of this module comes before the
  first write of the call.
\<close>

datatype call =
    GetElementTemplate "nat nullable" "nat nullable"
  | GetViewFactory "nat nullable" "ctx nullable"
  | BeginComponentOperation nat "nat nullable" "nat nullable" "nat nullable"
      "ViewFactory nullable" "TemplatePartDefinitions nullable" "nat nullable"
  | Dispose nat
  | ResolveViewFactory nat ctx

fun step :: "env \<Rightarrow> call \<Rightarrow> RenderingEngine \<Rightarrow> RenderingEngine" where
  "step E (GetElementTemplate d t) s =
     (case getElementTemplate E s d t of Inr (_, s') \<Rightarrow> s' | Inl _ \<Rightarrow> s)"
| "step E (GetViewFactory d c) s =
     (case getViewFactory E s d c of Inr (_, s') \<Rightarrow> s' | Inl _ \<Rightarrow> s)"
| "step E (BeginComponentOperation c renderable target instruction fac parts location) s =
     (case contexts s c of
        Some rc \<Rightarrow> s\<lparr> contexts := (contexts s)
                       (c \<mapsto> beginComponentOperation renderable target instruction fac parts location rc) \<rparr>
      | None \<Rightarrow> s)"
| "step E (Dispose c) s =
     (case contexts s c of
        Some rc \<Rightarrow> s\<lparr> contexts := (contexts s)(c \<mapsto> RenderContext_dispose rc) \<rparr>
      | None \<Rightarrow> s)"
| "step E (ResolveViewFactory c requestor) s =
     (case contexts s c of
        Some rc \<Rightarrow>
          (case ViewFactoryProvider_resolve E s (factoryProvider rc) requestor of
             Inr (_, s') \<Rightarrow> s'
           | Inl _ \<Rightarrow> s)
      | None \<Rightarrow> s)"

fun run :: "env \<Rightarrow> call list \<Rightarrow> RenderingEngine \<Rightarrow> RenderingEngine" where
  "run E [] s = s"
| "run E (c # cs) s = run E cs (step E c s)"

text \<open>How often \<open>compile\<close> was called on the object \<open>a\<close>.\<close>

definition compile_count :: "compile_arg \<Rightarrow> compile_call list \<Rightarrow> nat" where
  "compile_count a l = length (filter (\<lambda>(n, b, c). b = a) l)"

section \<open>Renderables and the lifecycle lists\<close>

text \<open>
  One heap of objects for renderables, bindables and attachables: a custom element is
  all three, so the arguments of \<open>addBindable\<close> may be the same object. The fields
  \<open>$context\<close>, \<open>$nodes\<close>, \<open>$scope\<close>, \<open>$bindableHead\<close>, ... are written without the
  dollar sign.
\<close>

record obj =
  o_context :: "nat nullable"
  nodes :: "NodeSequence nullable"
  scope :: "nat nullable"
  bindableHead :: "nat nullable"
  bindableTail :: "nat nullable"
  attachableHead :: "nat nullable"
  attachableTail :: "nat nullable"
  prevBind :: "nat nullable"
  nextBind :: "nat nullable"
  prevAttach :: "nat nullable"
  nextAttach :: "nat nullable"

type_synonym heap = "nat \<Rightarrow> obj"

text \<open>
  \<open>renderContext.render(renderable, targets, templateDefinition, host, parts)\<close> hands
  over to the renderer bound to the context, which is not part of this module.
\<close>

type_synonym Renderer =
  "nat \<Rightarrow> nat \<Rightarrow> NodeSequence \<Rightarrow> TemplateDefinition \<Rightarrow> nat nullable
     \<Rightarrow> TemplatePartDefinitions nullable \<Rightarrow> heap \<Rightarrow> heap"

fun render ::
  "Renderer \<Rightarrow> ITemplate \<Rightarrow> nat \<Rightarrow> nat nullable \<Rightarrow> TemplatePartDefinitions nullable \<Rightarrow> heap \<Rightarrow> heap" where
  "render R noViewTemplate renderable host parts h =
     (let h1 = h(renderable := (h renderable)\<lparr> nodes := Val NodeSequence_empty \<rparr>)
      in h1(renderable := (h1 renderable)\<lparr> o_context := Null \<rparr>))"
| "render R (Compiled t) renderable host parts h =
     (let ns = createNodeSequence (ct_factory t);
          h1 = h(renderable := (h renderable)\<lparr> nodes := Val ns \<rparr>);
          h2 = h1(renderable := (h1 renderable)\<lparr> o_context := Val (ct_renderContext t) \<rparr>)
      in R (ct_renderContext t) renderable ns (templateDefinition t) host parts h2)"

text \<open>
  \<open>addBindable\<close> returns the heap it leaves behind, and \<open>Some TypeError\<close> when
  \<open>renderable.$bindableTail\<close> is \<open>undefined\<close>: the guard is \<open>=== null\<close>, so the
  \<open>else\<close> branch then writes a property of \<open>undefined\<close>, after the two writes to
  the bindable have happened.
\<close>

definition addBindable :: "nat \<Rightarrow> nat \<Rightarrow> heap \<Rightarrow> error option \<times> heap" where
  "addBindable renderable bindable h =
     (let h1 = h(bindable := (h bindable)\<lparr> prevBind := bindableTail (h renderable) \<rparr>);
          h2 = h1(bindable := (h1 bindable)\<lparr> nextBind := Null \<rparr>)
      in case bindableTail (h2 renderable) of
           Null \<Rightarrow>
             (let h3 = h2(renderable := (h2 renderable)\<lparr> bindableHead := Val bindable \<rparr>)
              in (None, h3(renderable := (h3 renderable)\<lparr> bindableTail := Val bindable \<rparr>)))
         | Val t \<Rightarrow>
             (let h3 = h2(t := (h2 t)\<lparr> nextBind := Val bindable \<rparr>)
              in (None, h3(renderable := (h3 renderable)\<lparr> bindableTail := Val bindable \<rparr>)))
         | Undefined \<Rightarrow> (Some TypeError, h2))"

definition addAttachable :: "nat \<Rightarrow> nat \<Rightarrow> heap \<Rightarrow> error option \<times> heap" where
  "addAttachable renderable attachable h =
     (let h1 = h(attachable := (h attachable)\<lparr> prevAttach := attachableTail (h renderable) \<rparr>);
          h2 = h1(attachable := (h1 attachable)\<lparr> nextAttach := Null \<rparr>)
      in case attachableTail (h2 renderable) of
           Null \<Rightarrow>
             (let h3 = h2(renderable := (h2 renderable)\<lparr> attachableHead := Val attachable \<rparr>)
              in (None, h3(renderable := (h3 renderable)\<lparr> attachableTail := Val attachable \<rparr>)))
         | Val t \<Rightarrow>
             (let h3 = h2(t := (h2 t)\<lparr> nextAttach := Val attachable \<rparr>)
              in (None, h3(renderable := (h3 renderable)\<lparr> attachableTail := Val attachable \<rparr>)))
         | Undefined \<Rightarrow> (Some TypeError, h2))"

text \<open>
  The walk of the bind phase: from a head, along \<open>$nextBind\<close>, until \<open>null\<close>. It is
  given \<open>fuel\<close> steps; \<open>None\<close> says that it did not reach \<open>null\<close> in that many steps
  or met \<open>undefined\<close>.
\<close>

fun bind_walk :: "nat \<Rightarrow> heap \<Rightarrow> nat nullable \<Rightarrow> nat list option" where
  "bind_walk 0 h p = None"
| "bind_walk (Suc fuel) h Null = Some []"
| "bind_walk (Suc fuel) h Undefined = None"
| "bind_walk (Suc fuel) h (Val a) = map_option ((#) a) (bind_walk fuel h (nextBind (h a)))"

section \<open>Invariants of the engine's state\<close>

text \<open>
  \<open>extends s s'\<close>: what every call keeps. Cache entries are never replaced or
  removed, the compiler registry and the container are fixed, references are only
  handed out upwards, and a render context keeps its parent.
\<close>

definition same_parent :: "RenderContext option \<Rightarrow> RenderContext option \<Rightarrow> bool" where
  "same_parent a b = rel_option (\<lambda>x y. parent x = parent y) a b"

definition extends :: "RenderingEngine \<Rightarrow> RenderingEngine \<Rightarrow> bool" where
  "extends s s' \<longleftrightarrow>
     templateLookup s \<subseteq>\<^sub>m templateLookup s' \<and> factoryLookup s \<subseteq>\<^sub>m factoryLookup s'
     \<and> compilers s' = compilers s \<and> container s' = container s
     \<and> next_ref s \<le> next_ref s'
     \<and> (\<forall>c. c < next_ref s \<longrightarrow> same_parent (contexts s c) (contexts s' c))"

text \<open>
  \<open>compile\<close> was called on a caller's own definition object at most once, and only
  if that definition has an entry in \<open>templateLookup\<close>.
\<close>

definition compiled_once :: "RenderingEngine \<Rightarrow> bool" where
  "compiled_once s \<longleftrightarrow>
     (\<forall>d. compile_count (Given d) (compile_log s) \<le> (if templateLookup s d = None then 0 else 1))"

text \<open>A definition without a template payload is cached as \<open>noViewTemplate\<close> only.\<close>

definition no_view_cached :: "env \<Rightarrow> RenderingEngine \<Rightarrow> bool" where
  "no_view_cached E s \<longleftrightarrow>
     (\<forall>d t. templateLookup s d = Some t \<longrightarrow> \<not> has_template (template (defs E d)) \<longrightarrow> t = noViewTemplate)"

section \<open>Example inputs\<close>

text \<open>
  A definition that needs the default compiler, one without a template that names a
  compiler \<open>jit\<close>, an engine whose registry holds one compiler named \<open>default\<close>, a
  view factory with a replacement map for its name, and an object whose fields are all
  \<open>null\<close>.
\<close>

definition w_definition :: TemplateDefinition where
  "w_definition = \<lparr> def_name = Val ''part'', template = Val (Markup ''<p></p>''), cache = 0,
                     build = \<lparr> required = True, compiler = Undefined \<rparr>, dependencies = Null \<rparr>"

definition w_plain :: TemplateDefinition where
  "w_plain = \<lparr> def_name = Val ''plain'', template = Null, cache = 0,
                build = \<lparr> required = True, compiler = Val ''jit'' \<rparr>, dependencies = Null \<rparr>"

definition w_env :: env where
  "w_env = \<lparr> defs = (\<lambda>n. if n = 0 then w_definition else w_plain), buildTemplateDefinition = (\<lambda>d. d),
             prototype_value = (\<lambda>n. 50 + length n) \<rparr>"

definition w_compiler :: TemplateCompiler where
  "w_compiler = \<lparr> cname = ''default'',
                   compile = (\<lambda>d c. d\<lparr> build := \<lparr> required = False, compiler = Undefined \<rparr> \<rparr>) \<rparr>"

definition w_engine :: RenderingEngine where
  "w_engine = RenderingEngine_new (Container 0) [w_compiler]"

definition w_factory :: ViewFactory where
  "w_factory = \<lparr> vf_ref = 0, vf_name = Val ''part'', vf_template = noViewTemplate, vf_cacheSize = 0 \<rparr>"

definition w_parts :: TemplatePartDefinitions where
  "w_parts = [''part'' \<mapsto> Val 1]"

definition null_obj :: obj where
  "null_obj = \<lparr> o_context = Null, nodes = Null, scope = Null, bindableHead = Null,
                    bindableTail = Null, attachableHead = Null, attachableTail = Null,
                    prevBind = Null, nextBind = Null, prevAttach = Null, nextAttach = Null \<rparr>"

section \<open>Properties of InstanceProvider\<close>

text \<open>
  C1. The source's guard in \<open>resolve\<close> tests \<open>=== undefined\<close>, while both the field
  initialiser and \<open>dispose\<close> store \<open>null\<close>. So resolving a provider that was never
  prepared, or one that was disposed, does not fail: it returns \<open>null\<close>. The only
  state in which \<open>resolve\<close> raises error 50 is right after \<open>prepare(undefined)\<close>.
\<close>

theorem InstanceProvider_resolve_unprepared:
  "InstanceProvider_resolve (InstanceProvider_new :: 'a InstanceProvider) = Inr Null
   \<and> InstanceProvider_resolve (InstanceProvider_dispose (InstanceProvider_prepare x (p :: 'a InstanceProvider))) = Inr Null
   \<and> InstanceProvider_resolve (InstanceProvider_prepare Null p) = Inr Null
   \<and> InstanceProvider_resolve (InstanceProvider_prepare (Val v) p) = Inr (Val v)
   \<and> InstanceProvider_resolve (InstanceProvider_prepare Undefined p) = Inl (ReporterError 50 [])"
  by (simp add: InstanceProvider_new_def InstanceProvider_resolve_def
      InstanceProvider_dispose_def InstanceProvider_prepare_def)

section \<open>Falsy definitions\<close>

text \<open>
  C6. \<open>getElementTemplate\<close> and \<open>getViewFactory\<close> given \<open>null\<close> or \<open>undefined\<close>
  return \<open>null\<close> and leave the whole state as it was: both caches, the store of
  contexts and the log of compiler calls. Nothing is thrown.
\<close>

theorem falsy_definition_returns_null:
  "getElementTemplate E s Null ct = Inr (Null, s)
   \<and> getElementTemplate E s Undefined ct = Inr (Null, s)
   \<and> getViewFactory E s Null pc = Inr (Null, s)
   \<and> getViewFactory E s Undefined pc = Inr (Null, s)"
  by (simp add: getElementTemplate_def getViewFactory_def)

theorem falsy_definition_returns_null_witness:
  "getElementTemplate w_env w_engine Null (Val 3) = Inr (Null, w_engine)
   \<and> getViewFactory w_env w_engine Undefined (Val (Child 2)) = Inr (Null, w_engine)"
  using falsy_definition_returns_null [of w_env w_engine "Val 3" "Val (Child 2)"]
  by simp

section \<open>Disposing a render context\<close>

lemmas provider_defs = InstanceProvider_new_def InstanceProvider_resolve_def
  InstanceProvider_dispose_def InstanceProvider_prepare_def
  ViewFactoryProvider_new_def ViewFactoryProvider_prepare_def ViewFactoryProvider_dispose_def

text \<open>
  C7. On a context \<open>c\<close> made by \<open>createRenderContext\<close>, let \<open>d\<close> be \<open>c\<close> after
  \<open>beginComponentOperation\<close> and \<open>dispose\<close>. The four instance providers of \<open>d\<close> are
  as in \<open>c\<close>, but the view-factory provider is not: \<open>dispose\<close> stores \<open>null\<close> in its
  fields, which the constructor leaves \<open>undefined\<close>. Resolving it on \<open>c\<close> raises
  error 50; on \<open>d\<close> the guard \<open>=== undefined\<close> lets \<open>null\<close> through and reading
  \<open>factory.name\<close> is a \<open>TypeError\<close>. A second \<open>beginComponentOperation\<close> without a
  factory leaves \<open>d\<close> and \<open>c\<close> in different states.
\<close>

theorem dispose_leaves_factory_provider_null:
  "(case createRenderContext s p deps of
      (r, s') \<Rightarrow>
        (case contexts s' r of
           None \<Rightarrow> False
         | Some c \<Rightarrow>
             (let d = RenderContext_dispose (beginComponentOperation a b i f parts l c) in
              factoryProvider c = \<lparr> factory = Undefined, replacements = Undefined \<rparr>
              \<and> factoryProvider d = \<lparr> factory = Null, replacements = Null \<rparr>
              \<and> ViewFactoryProvider_resolve E s' (factoryProvider c) req = Inl (ReporterError 50 [])
              \<and> ViewFactoryProvider_resolve E s' (factoryProvider d) req = Inl TypeError
              \<and> renderableProvider d = renderableProvider c
              \<and> elementProvider d = elementProvider c
              \<and> instructionProvider d = instructionProvider c
              \<and> renderLocationProvider d = renderLocationProvider c
              \<and> beginComponentOperation a b i Undefined parts l d
                  \<noteq> beginComponentOperation a b i Undefined parts l c)))"
  by (simp add: createRenderContext_def Let_def RenderContext_dispose_def beginComponentOperation_def
      provider_defs ViewFactoryProvider_resolve_def)

section \<open>Replaceable parts\<close>

lemma Object_prototype_inherited:
  "n \<in> set Object_prototype_names \<Longrightarrow> get_property E Map.empty n = Val (prototype_value E n)"
  by (simp add: get_property_def)

text \<open>
  With an own entry \<open>R\<close> under the factory's name, \<open>resolve\<close> is the engine's
  \<open>getViewFactory(R, requestor)\<close>.
\<close>

lemma ViewFactoryProvider_resolve_own_entry:
  assumes "vf_name F = Val n" and "n \<noteq> []" and "P n = Some (Val R)"
  shows "ViewFactoryProvider_resolve E s (ViewFactoryProvider_prepare (Val F) (Val P) p) req
           = getViewFactory E s (Val R) (Val req)"
  using assms
  by (simp add: ViewFactoryProvider_resolve_def provider_defs get_property_def)

text \<open>
  With no own entry under the factory's name, and a name that \<open>Object.prototype\<close> does
  not hold either, \<open>resolve\<close> returns the prepared factory and changes nothing.
\<close>

lemma ViewFactoryProvider_resolve_no_entry:
  assumes "vf_name F = Val n" and "n \<noteq> []" and "n \<notin> set Object_prototype_names"
  shows "P n = None \<Longrightarrow>
           ViewFactoryProvider_resolve E s (ViewFactoryProvider_prepare (Val F) (Val P) p) req
             = Inr (Val F, s)"
    and "\<not> truthy parts \<Longrightarrow>
           ViewFactoryProvider_resolve E s (ViewFactoryProvider_prepare (Val F) parts p) req
             = Inr (Val F, s)"
  using assms
  by (cases parts;
      simp add: ViewFactoryProvider_resolve_def provider_defs get_property_def emptyObject_def)+

text \<open>
  C3. The source reads \<open>this.replacements[factory.name]\<close> on an ordinary object, so a
  name that the replacement map does not own is looked up in \<open>Object.prototype\<close>. For
  a factory \<open>F\<close> named \<open>constructor\<close> and no replacement map, or named \<open>toString\<close> and
  a map that only owns another name, the value found is a function, which is truthy:
  \<open>resolve\<close> does not return \<open>F\<close> but asks the engine for a view factory of that
  function. On the example engine this builds and caches a new factory, named after
  what was read off the function, and returns it in place of \<open>F\<close>.
\<close>

theorem ViewFactoryProvider_resolve_inherited_name:
  "ViewFactoryProvider_resolve E s
       (ViewFactoryProvider_prepare (Val (F\<lparr> vf_name := Val ''constructor'' \<rparr>)) Undefined p) req
     = getViewFactory E s (Val (prototype_value E ''constructor'')) (Val req)
   \<and> ViewFactoryProvider_resolve E s
       (ViewFactoryProvider_prepare (Val (F\<lparr> vf_name := Val ''toString'' \<rparr>)) (Val [''other'' \<mapsto> Val R]) p) req
     = getViewFactory E s (Val (prototype_value E ''toString'')) (Val req)
   \<and> ViewFactoryProvider_resolve w_env w_engine
       (ViewFactoryProvider_prepare (Val (w_factory\<lparr> vf_name := Val ''constructor'' \<rparr>)) Undefined
          ViewFactoryProvider_new) (Child 2)
     = Inr (Val \<lparr> vf_ref = 0, vf_name = Val ''plain'', vf_template = noViewTemplate, vf_cacheSize = 0 \<rparr>,
            w_engine\<lparr> factoryLookup := [61 \<mapsto> \<lparr> vf_ref = 0, vf_name = Val ''plain'',
                                                  vf_template = noViewTemplate, vf_cacheSize = 0 \<rparr>],
                      next_ref := 1 \<rparr>)
   \<and> ViewFactoryProvider_resolve w_env w_engine
       (ViewFactoryProvider_prepare (Val (w_factory\<lparr> vf_name := Val ''constructor'' \<rparr>)) Undefined
          ViewFactoryProvider_new) (Child 2)
     \<noteq> Inr (Val (w_factory\<lparr> vf_name := Val ''constructor'' \<rparr>), w_engine)"
proof (intro conjI)
  show "ViewFactoryProvider_resolve E s
       (ViewFactoryProvider_prepare (Val (F\<lparr> vf_name := Val ''constructor'' \<rparr>)) Undefined p) req
     = getViewFactory E s (Val (prototype_value E ''constructor'')) (Val req)"
    by (simp add: ViewFactoryProvider_resolve_def provider_defs get_property_def emptyObject_def
        Object_prototype_names_def)
  show "ViewFactoryProvider_resolve E s
       (ViewFactoryProvider_prepare (Val (F\<lparr> vf_name := Val ''toString'' \<rparr>)) (Val [''other'' \<mapsto> Val R]) p) req
     = getViewFactory E s (Val (prototype_value E ''toString'')) (Val req)"
    by (simp add: ViewFactoryProvider_resolve_def provider_defs get_property_def
        Object_prototype_names_def)
  have r: "ViewFactoryProvider_resolve w_env w_engine
       (ViewFactoryProvider_prepare (Val (w_factory\<lparr> vf_name := Val ''constructor'' \<rparr>)) Undefined
          ViewFactoryProvider_new) (Child 2)
     = Inr (Val \<lparr> vf_ref = 0, vf_name = Val ''plain'', vf_template = noViewTemplate, vf_cacheSize = 0 \<rparr>,
            w_engine\<lparr> factoryLookup := [61 \<mapsto> \<lparr> vf_ref = 0, vf_name = Val ''plain'',
                                                  vf_template = noViewTemplate, vf_cacheSize = 0 \<rparr>],
                      next_ref := 1 \<rparr>)"
    by (simp add: ViewFactoryProvider_resolve_def provider_defs get_property_def emptyObject_def
        Object_prototype_names_def getViewFactory_def templateFromSource_def Let_def
        w_env_def w_engine_def w_factory_def w_plain_def RenderingEngine_new_def)
  then show "ViewFactoryProvider_resolve w_env w_engine
       (ViewFactoryProvider_prepare (Val (w_factory\<lparr> vf_name := Val ''constructor'' \<rparr>)) Undefined
          ViewFactoryProvider_new) (Child 2)
     = Inr (Val \<lparr> vf_ref = 0, vf_name = Val ''plain'', vf_template = noViewTemplate, vf_cacheSize = 0 \<rparr>,
            w_engine\<lparr> factoryLookup := [61 \<mapsto> \<lparr> vf_ref = 0, vf_name = Val ''plain'',
                                                  vf_template = noViewTemplate, vf_cacheSize = 0 \<rparr>],
                      next_ref := 1 \<rparr>)" .
  show "ViewFactoryProvider_resolve w_env w_engine
       (ViewFactoryProvider_prepare (Val (w_factory\<lparr> vf_name := Val ''constructor'' \<rparr>)) Undefined
          ViewFactoryProvider_new) (Child 2)
     \<noteq> Inr (Val (w_factory\<lparr> vf_name := Val ''constructor'' \<rparr>), w_engine)"
    unfolding r by (simp add: w_factory_def)
qed

section \<open>The lifecycle lists\<close>

lemma addBindable_cases:
  "addBindable X b h =
     (let h2 = h(b := (h b)\<lparr> prevBind := bindableTail (h X), nextBind := Null \<rparr>)
      in case bindableTail (h X) of
           Null \<Rightarrow> (None, h2(X := (h2 X)\<lparr> bindableHead := Val b, bindableTail := Val b \<rparr>))
         | Val t \<Rightarrow> (None, (h2(t := (h2 t)\<lparr> nextBind := Val b \<rparr>))
                             (X := ((h2(t := (h2 t)\<lparr> nextBind := Val b \<rparr>)) X)\<lparr> bindableTail := Val b \<rparr>))
         | Undefined \<Rightarrow> (Some TypeError, h2))"
proof -
  have s: "bindableTail ((h(b := (h b)\<lparr> prevBind := p \<rparr>, b := q\<lparr> nextBind := Null \<rparr>)) X)
           = (if X = b then bindableTail q else bindableTail (h X))" for p q
    by simp
  show ?thesis
    unfolding addBindable_def Let_def
    by (cases "X = b"; cases "bindableTail (h X)"; simp)
qed

lemma addAttachable_cases:
  "addAttachable X a h =
     (let h2 = h(a := (h a)\<lparr> prevAttach := attachableTail (h X), nextAttach := Null \<rparr>)
      in case attachableTail (h X) of
           Null \<Rightarrow> (None, h2(X := (h2 X)\<lparr> attachableHead := Val a, attachableTail := Val a \<rparr>))
         | Val t \<Rightarrow> (None, (h2(t := (h2 t)\<lparr> nextAttach := Val a \<rparr>))
                             (X := ((h2(t := (h2 t)\<lparr> nextAttach := Val a \<rparr>)) X)\<lparr> attachableTail := Val a \<rparr>))
         | Undefined \<Rightarrow> (Some TypeError, h2))"
  unfolding addAttachable_def Let_def
  by (cases "X = a"; cases "attachableTail (h X)"; simp)

text \<open>
  C8. On a renderable \<open>X\<close> whose bindable tail is \<open>null\<close>, adding three different
  bindables \<open>A\<close>, \<open>B\<close>, \<open>C\<close> in that order raises nothing; the walk from
  \<open>$bindableHead\<close> along \<open>$nextBind\<close> ends at \<open>null\<close> and yields \<open>[A, B, C]\<close>;
  \<open>$bindableTail\<close> is \<open>C\<close>; each \<open>$prevBind\<close> is the predecessor, \<open>null\<close> for \<open>A\<close>;
  and \<open>C.$nextBind\<close> is \<open>null\<close>.
\<close>

theorem addBindable_three_in_order:
  assumes d: "A \<noteq> B" "A \<noteq> C" "B \<noteq> C"
    and tl: "bindableTail (h X) = Null"
    and f: "4 \<le> fuel"
    and h1: "h1 = snd (addBindable X A h)"
    and h2: "h2 = snd (addBindable X B h1)"
    and h3: "h3 = snd (addBindable X C h2)"
  shows "fst (addBindable X A h) = None \<and> fst (addBindable X B h1) = None
       \<and> fst (addBindable X C h2) = None
       \<and> bind_walk fuel h3 (bindableHead (h3 X)) = Some [A, B, C]
       \<and> bindableTail (h3 X) = Val C
       \<and> prevBind (h3 A) = Null \<and> prevBind (h3 B) = Val A \<and> prevBind (h3 C) = Val B
       \<and> nextBind (h3 A) = Val B \<and> nextBind (h3 B) = Val C \<and> nextBind (h3 C) = Null"
proof -
  have "fuel = Suc (Suc (Suc (Suc (fuel - 4))))"
    using f by simp
  then obtain k where k: "fuel = Suc (Suc (Suc (Suc k)))" ..
  have t1: "bindableTail (h1 X) = Val A" and e1: "fst (addBindable X A h) = None"
    using tl by (simp_all add: h1 addBindable_cases Let_def)
  have hd1: "bindableHead (h1 X) = Val A"
    using tl by (simp add: h1 addBindable_cases Let_def)
  have pA1: "prevBind (h1 A) = Null" and nA1: "nextBind (h1 A) = Null"
    using tl by (simp_all add: h1 addBindable_cases Let_def)
  have t2: "bindableTail (h2 X) = Val B" and e2: "fst (addBindable X B h1) = None"
    using t1 by (auto simp add: h2 addBindable_cases Let_def)
  have hd2: "bindableHead (h2 X) = Val A"
    using t1 hd1 by (auto simp add: h2 addBindable_cases Let_def)
  have A2: "prevBind (h2 A) = Null" "nextBind (h2 A) = Val B"
    using t1 pA1 d by (auto simp add: h2 addBindable_cases Let_def)
  have B2: "prevBind (h2 B) = Val A" "nextBind (h2 B) = Null"
    using t1 d by (auto simp add: h2 addBindable_cases Let_def)
  have t3: "bindableTail (h3 X) = Val C" and e3: "fst (addBindable X C h2) = None"
    using t2 by (auto simp add: h3 addBindable_cases Let_def)
  have hd3: "bindableHead (h3 X) = Val A"
    using t2 hd2 by (auto simp add: h3 addBindable_cases Let_def)
  have A3: "prevBind (h3 A) = Null" "nextBind (h3 A) = Val B"
    using t2 A2 d by (auto simp add: h3 addBindable_cases Let_def)
  have B3: "prevBind (h3 B) = Val A" "nextBind (h3 B) = Val C"
    using t2 B2 d by (auto simp add: h3 addBindable_cases Let_def)
  have C3: "prevBind (h3 C) = Val B" "nextBind (h3 C) = Null"
    using t2 d by (auto simp add: h3 addBindable_cases Let_def)
  have w: "bind_walk fuel h3 (bindableHead (h3 X)) = Some [A, B, C]"
    by (simp add: k hd3 A3 B3 C3)
  show ?thesis
    using e1 e2 e3 w t3 A3 B3 C3 by simp
qed

theorem addBindable_three_in_order_witness:
  "(let h = (\<lambda>_. null_obj);
        h1 = snd (addBindable 0 1 h); h2 = snd (addBindable 0 2 h1); h3 = snd (addBindable 0 3 h2)
    in bind_walk 4 h3 (bindableHead (h3 0)) = Some [1, 2, 3] \<and> bindableTail (h3 0) = Val 3
       \<and> prevBind (h3 1) = Null \<and> prevBind (h3 2) = Val 1 \<and> prevBind (h3 3) = Val 2
       \<and> nextBind (h3 3) = Null)"
proof -
  have a: "(1::nat) \<noteq> 2" "(1::nat) \<noteq> 3" "(2::nat) \<noteq> 3" "(4::nat) \<le> 4" by simp_all
  have b: "bindableTail ((\<lambda>_. null_obj) (0::nat)) = Null"
    by (simp add: null_obj_def)
  show ?thesis
    unfolding Let_def
    using addBindable_three_in_order [OF a(1) a(2) a(3) b a(4) refl refl refl]
    by simp
qed

text \<open>
  C10. \<open>addBindable(X, b)\<close> leaves every attach-list field, \<open>$context\<close>, \<open>$nodes\<close> and
  \<open>$scope\<close> of every object as it was; it changes \<open>$bindableHead\<close> and \<open>$bindableTail\<close>
  of \<open>X\<close> only, \<open>$prevBind\<close> of \<open>b\<close> only, and \<open>$nextBind\<close> of \<open>b\<close> and of the
  previous tail only. \<open>addAttachable(X, a)\<close> does the same with the attach-list fields.
  This holds also when the call throws.
\<close>

theorem addBindable_frame:
  assumes "h' = snd (addBindable X b h)" and "h'' = snd (addAttachable X a h)"
  shows "attachableHead (h' x) = attachableHead (h x)
        \<and> attachableTail (h' x) = attachableTail (h x)
        \<and> prevAttach (h' x) = prevAttach (h x)
        \<and> nextAttach (h' x) = nextAttach (h x)
        \<and> o_context (h' x) = o_context (h x)
        \<and> nodes (h' x) = nodes (h x)
        \<and> scope (h' x) = scope (h x)
        \<and> (x \<noteq> X \<longrightarrow> bindableHead (h' x) = bindableHead (h x)
                       \<and> bindableTail (h' x) = bindableTail (h x))
        \<and> (x \<noteq> b \<longrightarrow> prevBind (h' x) = prevBind (h x))
        \<and> (x \<noteq> b \<longrightarrow> bindableTail (h X) \<noteq> Val x \<longrightarrow> nextBind (h' x) = nextBind (h x))
        \<and> bindableHead (h'' x) = bindableHead (h x)
        \<and> bindableTail (h'' x) = bindableTail (h x)
        \<and> prevBind (h'' x) = prevBind (h x)
        \<and> nextBind (h'' x) = nextBind (h x)
        \<and> o_context (h'' x) = o_context (h x)
        \<and> nodes (h'' x) = nodes (h x)
        \<and> scope (h'' x) = scope (h x)
        \<and> (x \<noteq> X \<longrightarrow> attachableHead (h'' x) = attachableHead (h x)
                       \<and> attachableTail (h'' x) = attachableTail (h x))
        \<and> (x \<noteq> a \<longrightarrow> prevAttach (h'' x) = prevAttach (h x))
        \<and> (x \<noteq> a \<longrightarrow> attachableTail (h X) \<noteq> Val x \<longrightarrow> nextAttach (h'' x) = nextAttach (h x))"
proof -
  have 1: "attachableHead (h' x) = attachableHead (h x)
        \<and> attachableTail (h' x) = attachableTail (h x)
        \<and> prevAttach (h' x) = prevAttach (h x)
        \<and> nextAttach (h' x) = nextAttach (h x)
        \<and> o_context (h' x) = o_context (h x)
        \<and> nodes (h' x) = nodes (h x)
        \<and> scope (h' x) = scope (h x)
        \<and> (x \<noteq> X \<longrightarrow> bindableHead (h' x) = bindableHead (h x)
                       \<and> bindableTail (h' x) = bindableTail (h x))
        \<and> (x \<noteq> b \<longrightarrow> prevBind (h' x) = prevBind (h x))
        \<and> (x \<noteq> b \<longrightarrow> bindableTail (h X) \<noteq> Val x \<longrightarrow> nextBind (h' x) = nextBind (h x))"
    unfolding assms(1)
    by (cases "bindableTail (h X)"; simp add: addBindable_cases Let_def)
  have 2: "bindableHead (h'' x) = bindableHead (h x)
        \<and> bindableTail (h'' x) = bindableTail (h x)
        \<and> prevBind (h'' x) = prevBind (h x)
        \<and> nextBind (h'' x) = nextBind (h x)
        \<and> o_context (h'' x) = o_context (h x)
        \<and> nodes (h'' x) = nodes (h x)
        \<and> scope (h'' x) = scope (h x)
        \<and> (x \<noteq> X \<longrightarrow> attachableHead (h'' x) = attachableHead (h x)
                       \<and> attachableTail (h'' x) = attachableTail (h x))
        \<and> (x \<noteq> a \<longrightarrow> prevAttach (h'' x) = prevAttach (h x))
        \<and> (x \<noteq> a \<longrightarrow> attachableTail (h X) \<noteq> Val x \<longrightarrow> nextAttach (h'' x) = nextAttach (h x))"
    unfolding assms(2)
    by (cases "attachableTail (h X)"; simp add: addAttachable_cases Let_def)
  from 1 2 show ?thesis by blast
qed

theorem addBindable_frame_witness:
  "(let h = (\<lambda>_. null_obj); h' = snd (addBindable 0 1 h); h'' = snd (addAttachable 0 1 h)
    in (2::nat) \<noteq> 0 \<and> (2::nat) \<noteq> 1 \<and> bindableTail (h 0) \<noteq> Val (2::nat)
       \<and> attachableTail (h 0) \<noteq> Val (2::nat)
       \<and> bindableHead (h' 2) = bindableHead (h 2) \<and> bindableTail (h' 2) = bindableTail (h 2)
       \<and> prevBind (h' 2) = prevBind (h 2) \<and> nextBind (h' 2) = nextBind (h 2)
       \<and> attachableHead (h'' 2) = attachableHead (h 2) \<and> attachableTail (h'' 2) = attachableTail (h 2)
       \<and> prevAttach (h'' 2) = prevAttach (h 2) \<and> nextAttach (h'' 2) = nextAttach (h 2))"
proof -
  have a: "(2::nat) \<noteq> 0" "(2::nat) \<noteq> 1" by simp_all
  have b: "bindableTail ((\<lambda>_. null_obj) (0::nat)) \<noteq> Val (2::nat)"
    "attachableTail ((\<lambda>_. null_obj) (0::nat)) \<noteq> Val (2::nat)"
    by (simp_all add: null_obj_def)
  show ?thesis
    unfolding Let_def
    using addBindable_frame [OF refl refl, where x = 2 and X = 0 and b = 1 and a = 1 and h = "\<lambda>_. null_obj"] a b
    by blast
qed

section \<open>What a call of the engine changes\<close>

lemma CompiledTemplate_new_effect:
  assumes "CompiledTemplate_new s pc d = (t, s')"
  shows "templateLookup s' = templateLookup s \<and> factoryLookup s' = factoryLookup s
       \<and> compilers s' = compilers s \<and> container s' = container s
       \<and> compile_log s' = compile_log s
       \<and> next_ref s' = Suc (Suc (next_ref s))
       \<and> contexts s' = (contexts s)(Suc (next_ref s) \<mapsto>
            \<lparr> parent = pc, registered = (case dependencies d of Val ds \<Rightarrow> ds | _ \<Rightarrow> []),
              renderableProvider = InstanceProvider_new, elementProvider = InstanceProvider_new,
              instructionProvider = InstanceProvider_new, factoryProvider = ViewFactoryProvider_new,
              renderLocationProvider = InstanceProvider_new \<rparr>)
       \<and> t = Compiled \<lparr> ct_ref = next_ref s, ct_factory = NodeSequenceFactory_createFor (template d),
                         ct_renderContext = Suc (next_ref s), templateDefinition = d \<rparr>"
  using assms
  by (auto simp add: CompiledTemplate_new_def createRenderContext_def Let_def)

lemma templateFromSource_effect:
  assumes "templateFromSource s src pc = Inr (t, s')"
  shows "templateLookup s' = templateLookup s \<and> factoryLookup s' = factoryLookup s
       \<and> compilers s' = compilers s \<and> container s' = container s
       \<and> next_ref s \<le> next_ref s'
       \<and> (\<forall>c. c < next_ref s \<longrightarrow> contexts s' c = contexts s c)
       \<and> (t = noViewTemplate \<longrightarrow> s' = s)
       \<and> (\<forall>ct. t = Compiled ct \<longrightarrow>
             next_ref s \<le> ct_renderContext ct \<and> ct_renderContext ct < next_ref s'
             \<and> (\<exists>rc. contexts s' (ct_renderContext ct) = Some rc
                      \<and> parent rc = or_ctx pc (container s)))"
proof (cases src)
  case (Val p)
  obtain i d where p: "p = (i, d)" by (cases p)
  show ?thesis
  proof (cases "has_template (template d)")
    case False
    with assms Val p show ?thesis by (simp add: templateFromSource_def)
  next
    case ht: True
    show ?thesis
    proof (cases "required (build d)")
      case False
      with assms Val p ht have "CompiledTemplate_new s (or_ctx pc (container s)) d = (t, s')"
        by (simp add: templateFromSource_def)
      from CompiledTemplate_new_effect [OF this] show ?thesis by auto
    next
      case True
      let ?n = "or_default (compiler (build d)) defaultCompilerName"
      let ?pc = "or_ctx pc (container s)"
      from assms Val p ht True obtain c where c: "compilers s ?n = Some c"
        and n: "CompiledTemplate_new (s\<lparr> compile_log := compile_log s @ [(?n, i, ?pc)] \<rparr>) ?pc (compile c d ?pc) = (t, s')"
        by (auto simp add: templateFromSource_def Let_def split: option.splits)
      from CompiledTemplate_new_effect [OF n] show ?thesis by auto
    qed
  qed
qed (use assms in \<open>simp_all add: templateFromSource_def\<close>)

lemma templateFromSource_log:
  assumes "templateFromSource s (Val (i, d)) pc = Inr (t, s')"
  shows "compile_count a (compile_log s') = compile_count a (compile_log s)
         \<or> (a = i \<and> compile_count a (compile_log s') = Suc (compile_count a (compile_log s)))"
proof (cases "has_template (template d)")
  case False
  with assms show ?thesis by (simp add: templateFromSource_def)
next
  case ht: True
  show ?thesis
  proof (cases "required (build d)")
    case False
    with assms ht have "CompiledTemplate_new s (or_ctx pc (container s)) d = (t, s')"
      by (simp add: templateFromSource_def)
    from CompiledTemplate_new_effect [OF this] show ?thesis by auto
  next
    case True
    let ?n = "or_default (compiler (build d)) defaultCompilerName"
    let ?pc = "or_ctx pc (container s)"
    from assms ht True obtain c where c: "compilers s ?n = Some c"
      and n: "CompiledTemplate_new (s\<lparr> compile_log := compile_log s @ [(?n, i, ?pc)] \<rparr>) ?pc (compile c d ?pc) = (t, s')"
      by (auto simp add: templateFromSource_def Let_def split: option.splits)
    from CompiledTemplate_new_effect [OF n] have "compile_log s' = compile_log s @ [(?n, i, ?pc)]"
      by simp
    then show ?thesis by (simp add: compile_count_def)
  qed
qed

lemma same_parent_refl [simp]: "same_parent a a"
  by (cases a) (simp_all add: same_parent_def)

lemma same_parent_trans: "same_parent a b \<Longrightarrow> same_parent b c \<Longrightarrow> same_parent a c"
  by (cases a; cases b; cases c; simp add: same_parent_def)

lemma same_parent_None [simp]: "same_parent None b \<longleftrightarrow> b = None"
  by (cases b) (simp_all add: same_parent_def)

lemma same_parent_Some:
  "same_parent (Some x) b \<longleftrightarrow> (\<exists>y. b = Some y \<and> parent y = parent x)"
  by (cases b) (auto simp add: same_parent_def)

lemma extends_refl [simp]: "extends s s"
  by (simp add: extends_def)

lemma extends_trans:
  assumes "extends s s'" and "extends s' s''"
  shows "extends s s''"
  unfolding extends_def
proof (intro conjI allI impI)
  show "templateLookup s \<subseteq>\<^sub>m templateLookup s''"
    using assms map_le_trans unfolding extends_def by blast
  show "factoryLookup s \<subseteq>\<^sub>m factoryLookup s''"
    using assms map_le_trans unfolding extends_def by blast
  show "compilers s'' = compilers s" using assms by (simp add: extends_def)
  show "container s'' = container s" using assms by (simp add: extends_def)
  show "next_ref s \<le> next_ref s''" using assms by (simp add: extends_def)
next
  fix c assume c: "c < next_ref s"
  then have "c < next_ref s'" using assms(1) by (simp add: extends_def)
  with c show "same_parent (contexts s c) (contexts s'' c)"
    using assms same_parent_trans unfolding extends_def by blast
qed

lemma templateFromSource_extends:
  assumes "templateFromSource s src pc = Inr (t, s')"
  shows "extends s s'"
  using templateFromSource_effect [OF assms] by (simp add: extends_def)

lemma register_type_extends: "extends s (register_type k c s)"
  by (cases "contexts s c") (auto simp add: register_type_def extends_def same_parent_Some)

lemma register_type_fields:
  "compile_log (register_type k c s) = compile_log s"
  "templateLookup (register_type k c s) = templateLookup s"
  "factoryLookup (register_type k c s) = factoryLookup s"
  "next_ref (register_type k c s) = next_ref s"
  by (cases "contexts s c"; simp add: register_type_def)+

lemma getElementTemplate_cases:
  assumes "getElementTemplate E s (Val d) ct = Inr (r, s')"
  obtains (hit) t where "templateLookup s d = Some t" "r = Val t" "s' = s"
  | (miss) t s1 s2 where "templateLookup s d = None"
      "templateFromSource s (Val (Given d, defs E d)) Undefined = Inr (t, s1)"
      "r = Val t" "s2 = s1 \<or> (\<exists>c k. s2 = register_type k c s1)"
      "s' = s2\<lparr> templateLookup := (templateLookup s2)(d \<mapsto> t) \<rparr>"
proof (cases "templateLookup s d")
  case (Some t)
  with assms have "r = Val t" "s' = s" by (simp_all add: getElementTemplate_def)
  with Some show ?thesis by (rule hit)
next
  case None
  with assms obtain t s1 where t: "templateFromSource s (Val (Given d, defs E d)) Undefined = Inr (t, s1)"
    by (auto simp add: getElementTemplate_def split: sum.splits)
  define s2 where "s2 = (case (renderContext t, ct) of (Val c, Val k) \<Rightarrow> register_type k c s1 | _ \<Rightarrow> s1)"
  have r: "r = Val t" and s': "s' = s2\<lparr> templateLookup := (templateLookup s2)(d \<mapsto> t) \<rparr>"
    using assms None t by (simp_all add: getElementTemplate_def s2_def Let_def)
  have "s2 = s1 \<or> (\<exists>c k. s2 = register_type k c s1)"
    unfolding s2_def by (cases "renderContext t"; cases ct; simp; blast)
  with None t r show ?thesis using s' by (rule miss)
qed

lemma getViewFactory_cases:
  assumes "getViewFactory E s (Val d) pc = Inr (r, s')"
  obtains (hit) f where "factoryLookup s d = Some f" "r = Val f" "s' = s"
  | (miss) t s1 f where "factoryLookup s d = None"
      "templateFromSource s (Val (Normalized d, buildTemplateDefinition E (defs E d))) pc = Inr (t, s1)"
      "f = \<lparr> vf_ref = next_ref s1, vf_name = def_name (buildTemplateDefinition E (defs E d)),
              vf_template = t, vf_cacheSize = cache (buildTemplateDefinition E (defs E d)) \<rparr>"
      "r = Val f"
      "s' = s1\<lparr> factoryLookup := (factoryLookup s1)(d \<mapsto> f), next_ref := Suc (next_ref s1) \<rparr>"
proof (cases "factoryLookup s d")
  case (Some f)
  with assms have "r = Val f" "s' = s" by (simp_all add: getViewFactory_def)
  with Some show ?thesis by (rule hit)
next
  case None
  with assms obtain t s1 where
    t: "templateFromSource s (Val (Normalized d, buildTemplateDefinition E (defs E d))) pc = Inr (t, s1)"
    by (auto simp add: getViewFactory_def Let_def split: sum.splits)
  show ?thesis
    using assms None t by (intro miss [OF None t refl]) (simp_all add: getViewFactory_def Let_def)
qed

lemma getElementTemplate_extends:
  assumes "getElementTemplate E s dref ct = Inr (r, s')"
  shows "extends s s'"
proof (cases dref)
  case (Val d)
  from assms [unfolded Val] show ?thesis
  proof (cases rule: getElementTemplate_cases)
    case (miss t s1 s2)
    have 1: "extends s s1" using miss(2) by (rule templateFromSource_extends)
    have 2: "extends s1 s2" using miss(4) register_type_extends by auto
    have tl: "templateLookup s2 = templateLookup s"
      using miss(4) templateFromSource_effect [OF miss(2)] by (auto simp add: register_type_fields)
    have 3: "extends s2 s'"
      using miss(1) tl by (auto simp add: miss(5) extends_def map_le_def)
    from 1 2 3 show ?thesis by (blast intro: extends_trans)
  qed simp
qed (use assms in \<open>simp_all add: getElementTemplate_def\<close>)

lemma getViewFactory_extends:
  assumes "getViewFactory E s dref pc = Inr (r, s')"
  shows "extends s s'"
proof (cases dref)
  case (Val d)
  from assms [unfolded Val] show ?thesis
  proof (cases rule: getViewFactory_cases)
    case (miss t s1 f)
    have 1: "extends s s1" using miss(2) by (rule templateFromSource_extends)
    have fl: "factoryLookup s1 = factoryLookup s"
      using templateFromSource_effect [OF miss(2)] by simp
    have 3: "extends s1 s'"
      using miss(1) fl by (auto simp add: miss(5) extends_def map_le_def)
    from 1 3 show ?thesis by (blast intro: extends_trans)
  qed simp
qed (use assms in \<open>simp_all add: getViewFactory_def\<close>)

lemma ViewFactoryProvider_resolve_cases:
  assumes "ViewFactoryProvider_resolve E s p req = Inr (r, s')"
  shows "s' = s \<or> (\<exists>d. getViewFactory E s (Val d) (Val req) = Inr (r, s'))"
  using assms
  by (auto simp add: ViewFactoryProvider_resolve_def split: nullable.splits if_splits)

lemma step_extends: "extends s (step E k s)"
proof (cases k)
  case (GetElementTemplate d t)
  then show ?thesis
    by (auto split: sum.splits dest: getElementTemplate_extends)
next
  case (GetViewFactory d c)
  then show ?thesis
    by (auto split: sum.splits dest: getViewFactory_extends)
next
  case (BeginComponentOperation c a1 a2 a3 a4 a5 a6)
  then show ?thesis
    by (cases "contexts s c")
       (auto simp add: extends_def same_parent_Some beginComponentOperation_def Let_def)
next
  case (Dispose c)
  then show ?thesis
    by (cases "contexts s c") (auto simp add: extends_def same_parent_Some RenderContext_dispose_def)
next
  case (ResolveViewFactory c req)
  then show ?thesis
    by (cases "contexts s c")
       (auto split: sum.splits dest!: ViewFactoryProvider_resolve_cases dest: getViewFactory_extends)
qed

lemma run_extends: "extends s (run E ks s)"
proof (induction ks arbitrary: s)
  case (Cons k ks)
  show ?case using step_extends Cons extends_trans by (simp, blast)
qed simp


lemma run_append: "run E (ks @ ks') s = run E ks' (run E ks s)"
  by (induction ks arbitrary: s) simp_all

lemma templateFromSource_no_view:
  "\<not> has_template (template d) \<Longrightarrow> templateFromSource s (Val (i, d)) pc = Inr (noViewTemplate, s)"
  by (simp add: templateFromSource_def)

lemma getElementTemplate_compiled_once:
  assumes "getElementTemplate E s dref ct = Inr (r, s')" and inv: "compiled_once s"
  shows "compiled_once s'"
proof (cases dref)
  case (Val d)
  from assms(1) [unfolded Val] show ?thesis
  proof (cases rule: getElementTemplate_cases)
    case hit
    with inv show ?thesis by simp
  next
    case (miss t s1 s2)
    have l2: "compile_log s2 = compile_log s1" and t2: "templateLookup s2 = templateLookup s"
      using miss(4) templateFromSource_effect [OF miss(2)] by (auto simp add: register_type_fields)
    show ?thesis
      unfolding compiled_once_def
    proof
      fix d'
      have c: "compile_count (Given d') (compile_log s') = compile_count (Given d') (compile_log s)
          \<or> (Given d' = Given d \<and> compile_count (Given d') (compile_log s') = Suc (compile_count (Given d') (compile_log s)))"
        using templateFromSource_log [OF miss(2), of "Given d'"] l2 by (simp add: miss(5))
      have i: "compile_count (Given d') (compile_log s) \<le> (if templateLookup s d' = None then 0 else 1)"
        using inv by (simp add: compiled_once_def)
      show "compile_count (Given d') (compile_log s') \<le> (if templateLookup s' d' = None then 0 else 1)"
      proof (cases "d' = d")
        case True
        with i miss(1) have "compile_count (Given d') (compile_log s) = 0" by simp
        with c True show ?thesis by (auto simp add: miss(5))
      next
        case False
        with c i show ?thesis by (simp add: miss(5) t2)
      qed
    qed
  qed
qed (use assms in \<open>simp_all add: getElementTemplate_def\<close>)

lemma getViewFactory_compiled_once:
  assumes "getViewFactory E s dref pc = Inr (r, s')" and inv: "compiled_once s"
  shows "compiled_once s'"
proof (cases dref)
  case (Val d)
  from assms(1) [unfolded Val] show ?thesis
  proof (cases rule: getViewFactory_cases)
    case hit
    with inv show ?thesis by simp
  next
    case (miss t s1 f)
    have "compile_count (Given d') (compile_log s1) = compile_count (Given d') (compile_log s)" for d'
      using templateFromSource_log [OF miss(2), of "Given d'"] by simp
    moreover have "templateLookup s1 = templateLookup s"
      using templateFromSource_effect [OF miss(2)] by simp
    ultimately show ?thesis
      using inv by (simp add: compiled_once_def miss(5))
  qed
qed (use assms in \<open>simp_all add: getViewFactory_def\<close>)

lemma step_compiled_once: "compiled_once s \<Longrightarrow> compiled_once (step E k s)"
proof (cases k)
  case (GetElementTemplate d t)
  assume "compiled_once s"
  with GetElementTemplate show ?thesis
    by (auto split: sum.splits dest: getElementTemplate_compiled_once)
next
  case (GetViewFactory d c)
  assume "compiled_once s"
  with GetViewFactory show ?thesis
    by (auto split: sum.splits dest: getViewFactory_compiled_once)
next
  case (BeginComponentOperation c a1 a2 a3 a4 a5 a6)
  assume "compiled_once s"
  with BeginComponentOperation show ?thesis
    by (cases "contexts s c") (simp_all add: compiled_once_def)
next
  case (Dispose c)
  assume "compiled_once s"
  with Dispose show ?thesis
    by (cases "contexts s c") (simp_all add: compiled_once_def)
next
  case (ResolveViewFactory c req)
  assume "compiled_once s"
  with ResolveViewFactory show ?thesis
    by (cases "contexts s c")
       (auto split: sum.splits dest!: ViewFactoryProvider_resolve_cases dest: getViewFactory_compiled_once)
qed

lemma run_compiled_once: "compiled_once s \<Longrightarrow> compiled_once (run E ks s)"
  by (induction ks arbitrary: s) (simp_all add: step_compiled_once)

lemma new_compiled_once: "compiled_once (RenderingEngine_new cont cs)"
  by (simp add: compiled_once_def RenderingEngine_new_def compile_count_def)

lemma getElementTemplate_no_view_cached:
  assumes "getElementTemplate E s dref ct = Inr (r, s')" and inv: "no_view_cached E s"
  shows "no_view_cached E s'"
proof (cases dref)
  case (Val d)
  from assms(1) [unfolded Val] show ?thesis
  proof (cases rule: getElementTemplate_cases)
    case hit
    with inv show ?thesis by simp
  next
    case (miss t s1 s2)
    have t2: "templateLookup s2 = templateLookup s"
      using miss(4) templateFromSource_effect [OF miss(2)] by (auto simp add: register_type_fields)
    have "t = noViewTemplate" if "\<not> has_template (template (defs E d))"
      using miss(2) templateFromSource_no_view [OF that] by simp
    with inv show ?thesis
      by (auto simp add: no_view_cached_def miss(5) t2)
  qed
qed (use assms in \<open>simp_all add: getElementTemplate_def\<close>)

lemma getViewFactory_templateLookup:
  assumes "getViewFactory E s dref pc = Inr (r, s')"
  shows "templateLookup s' = templateLookup s"
proof (cases dref)
  case (Val d)
  from assms(1) [unfolded Val] show ?thesis
  proof (cases rule: getViewFactory_cases)
    case (miss t s1 f)
    then show ?thesis using templateFromSource_effect [OF miss(2)] by simp
  qed simp
qed (use assms in \<open>simp_all add: getViewFactory_def\<close>)

lemma step_no_view_cached: "no_view_cached E s \<Longrightarrow> no_view_cached E (step E k s)"
proof (cases k)
  case (GetElementTemplate d t)
  assume "no_view_cached E s"
  with GetElementTemplate show ?thesis
    by (auto split: sum.splits dest: getElementTemplate_no_view_cached)
next
  case (GetViewFactory d c)
  assume "no_view_cached E s"
  with GetViewFactory show ?thesis
    by (auto simp add: no_view_cached_def split: sum.splits dest!: getViewFactory_templateLookup)
next
  case (BeginComponentOperation c a1 a2 a3 a4 a5 a6)
  assume "no_view_cached E s"
  with BeginComponentOperation show ?thesis
    by (cases "contexts s c") (simp_all add: no_view_cached_def)
next
  case (Dispose c)
  assume "no_view_cached E s"
  with Dispose show ?thesis
    by (cases "contexts s c") (simp_all add: no_view_cached_def)
next
  case (ResolveViewFactory c req)
  assume "no_view_cached E s"
  with ResolveViewFactory show ?thesis
    by (cases "contexts s c")
       (auto simp add: no_view_cached_def split: sum.splits
             dest!: ViewFactoryProvider_resolve_cases getViewFactory_templateLookup)
qed

lemma run_no_view_cached: "no_view_cached E s \<Longrightarrow> no_view_cached E (run E ks s)"
  by (induction ks arbitrary: s) (simp_all add: step_no_view_cached)

lemma new_no_view_cached: "no_view_cached E (RenderingEngine_new cont cs)"
  by (simp add: no_view_cached_def RenderingEngine_new_def)

lemma registry_None:
  "foldl (\<lambda>acc item. acc(cname item \<mapsto> item)) m cs n = None \<longleftrightarrow> m n = None \<and> n \<notin> cname ` set cs"
  by (induction cs arbitrary: m) auto

lemma run_compilers:
  "compilers (run E ks (RenderingEngine_new cont cs)) n = None \<longleftrightarrow> n \<notin> cname ` set cs"
proof -
  have "compilers (run E ks (RenderingEngine_new cont cs)) = compilers (RenderingEngine_new cont cs)"
    using run_extends [of "RenderingEngine_new cont cs" E ks] by (simp add: extends_def)
  then show ?thesis by (simp add: RenderingEngine_new_def registry_None)
qed

text \<open>
  A view factory that \<open>getViewFactory(R, c)\<close> builds is built from \<open>R\<close> and scoped to
  \<open>c\<close>: its name and cache size are those of the normalised \<open>R\<close>, its template is
  \<open>templateFromSource\<close> of the normalised \<open>R\<close> under \<open>c\<close>, a compiled template's
  render context is a child of \<open>c\<close>, and the factory is cached under \<open>R\<close>.
\<close>

lemma getViewFactory_builds:
  assumes "factoryLookup s R = None" and "getViewFactory E s (Val R) (Val c) = Inr (r, s')"
  shows "\<exists>t s1. templateFromSource s (Val (Normalized R, buildTemplateDefinition E (defs E R))) (Val c)
                  = Inr (t, s1)
           \<and> r = Val \<lparr> vf_ref = next_ref s1,
                        vf_name = def_name (buildTemplateDefinition E (defs E R)),
                        vf_template = t,
                        vf_cacheSize = cache (buildTemplateDefinition E (defs E R)) \<rparr>
           \<and> factoryLookup s' R = Some \<lparr> vf_ref = next_ref s1,
                        vf_name = def_name (buildTemplateDefinition E (defs E R)),
                        vf_template = t,
                        vf_cacheSize = cache (buildTemplateDefinition E (defs E R)) \<rparr>
           \<and> (\<forall>ct. t = Compiled ct \<longrightarrow>
                  (\<exists>rc. contexts s' (ct_renderContext ct) = Some rc \<and> parent rc = c))"
  using assms(2)
proof (cases rule: getViewFactory_cases)
  case (hit f)
  with assms(1) show ?thesis by simp
next
  case (miss t s1 f)
  have "\<exists>rc. contexts s' (ct_renderContext ct) = Some rc \<and> parent rc = c" if "t = Compiled ct" for ct
    using templateFromSource_effect [OF miss(2)] that by (auto simp add: miss(5))
  with miss show ?thesis by simp
qed

section \<open>Memoised templates\<close>

text \<open>
  C2. On an engine built by the constructor and used by any calls since, if
  \<open>getElementTemplate(D, ct1)\<close> returns, it returns a template, and after any further
  calls \<open>getElementTemplate(D, ct2)\<close> returns that same template and leaves the state as
  it is. At every moment \<open>compile\<close> has been called on \<open>D\<close> at most once.
\<close>

theorem getElementTemplate_memoized:
  assumes "s = run E before (RenderingEngine_new cont cs)"
    and "getElementTemplate E s (Val D) ct1 = Inr (r, s')"
    and "s'' = run E after s'"
  shows "(\<exists>t. r = Val t \<and> getElementTemplate E s'' (Val D) ct2 = Inr (Val t, s''))
       \<and> compile_count (Given D) (compile_log s'') \<le> 1"
proof
  have "\<exists>t. r = Val t \<and> templateLookup s' D = Some t"
    using assms(2) by (cases rule: getElementTemplate_cases) simp_all
  then obtain t where r: "r = Val t" and t: "templateLookup s' D = Some t" by blast
  have "extends s' s''" unfolding assms(3) by (rule run_extends)
  with t have "templateLookup s'' D = Some t"
    by (auto simp add: extends_def map_le_def dom_def)
  then have "getElementTemplate E s'' (Val D) ct2 = Inr (Val t, s'')"
    by (simp add: getElementTemplate_def)
  with r show "\<exists>t. r = Val t \<and> getElementTemplate E s'' (Val D) ct2 = Inr (Val t, s'')" by blast
next
  have "s'' = run E (before @ GetElementTemplate (Val D) ct1 # after) (RenderingEngine_new cont cs)"
    using assms by (simp add: run_append)
  then have "compiled_once s''"
    using new_compiled_once run_compiled_once by simp
  then have "compile_count (Given D) (compile_log s'') \<le> (if templateLookup s'' D = None then 0 else 1)"
    unfolding compiled_once_def by blast
  then show "compile_count (Given D) (compile_log s'') \<le> 1"
    by (simp split: if_splits)
qed

lemma w_first_call:
  "\<exists>t s'. getElementTemplate w_env w_engine (Val 0) Undefined = Inr (Val t, s')
     \<and> compile_log s' = [(''default'', Given 0, Container 0)]"
  by (simp add: getElementTemplate_def templateFromSource_def w_env_def w_engine_def
      RenderingEngine_new_def w_definition_def w_compiler_def defaultCompilerName_def
      CompiledTemplate_new_def createRenderContext_def Let_def)

theorem getElementTemplate_memoized_witness:
  "\<exists>t s'. getElementTemplate w_env w_engine (Val 0) Undefined = Inr (Val t, s')
     \<and> getElementTemplate w_env s' (Val 0) (Val 7) = Inr (Val t, s')
     \<and> compile_count (Given 0) (compile_log s') = 1"
proof -
  obtain t s' where f: "getElementTemplate w_env w_engine (Val 0) Undefined = Inr (Val t, s')"
    and l: "compile_log s' = [(''default'', Given 0, Container 0)]"
    using w_first_call by blast
  have a: "w_engine = run w_env [] (RenderingEngine_new (Container 0) [w_compiler])"
    by (simp add: w_engine_def)
  have b: "s' = run w_env [] s'" by simp
  from getElementTemplate_memoized [OF a f b, of "Val 7"] l f show ?thesis
    by (simp add: compile_count_def)
qed

section \<open>Unknown compilers\<close>

text \<open>
  C4. On an engine built from the compilers \<open>cs\<close>, after any calls: for a definition
  with a template payload that requires a build, whose compiler name (\<open>default\<close> when
  it names none) is not the name of any compiler in \<open>cs\<close>, \<open>templateFromSource\<close>
  throws error 20 carrying that name. It returns no template.
\<close>

theorem templateFromSource_unknown_compiler:
  assumes "has_template (template d)" and "required (build d)"
    and "nm = or_default (compiler (build d)) defaultCompilerName"
    and "nm \<notin> cname ` set cs"
  shows "templateFromSource (run E calls (RenderingEngine_new cont cs)) (Val (i, d)) pc
         = Inl (ReporterError 20 [nm])"
  using assms run_compilers [of E calls cont cs nm]
  by (simp add: templateFromSource_def Let_def)

theorem templateFromSource_unknown_compiler_witness:
  "templateFromSource w_engine (Val (Given 1, w_plain\<lparr> template := Val (NodeTemplate 3) \<rparr>)) Undefined
     = Inl (ReporterError 20 [''jit''])
   \<and> templateFromSource (RenderingEngine_new (Container 0) []) (Val (Given 0, w_definition)) Undefined
     = Inl (ReporterError 20 [''default''])"
proof -
  have 1: "has_template (template (w_plain\<lparr> template := Val (NodeTemplate 3) \<rparr>))"
    "required (build (w_plain\<lparr> template := Val (NodeTemplate 3) \<rparr>))"
    "''jit'' = or_default (compiler (build (w_plain\<lparr> template := Val (NodeTemplate 3) \<rparr>))) defaultCompilerName"
    "''jit'' \<notin> cname ` set [w_compiler]"
    by (simp_all add: w_plain_def w_compiler_def)
  have 2: "has_template (template w_definition)" "required (build w_definition)"
    "''default'' = or_default (compiler (build w_definition)) defaultCompilerName"
    "''default'' \<notin> cname ` set []"
    by (simp_all add: w_definition_def defaultCompilerName_def)
  show ?thesis
    using templateFromSource_unknown_compiler [OF 1, of w_env "[]" "Container 0" "Given 1" Undefined]
      templateFromSource_unknown_compiler [OF 2, of w_env "[]" "Container 0" "Given 0" Undefined]
    by (simp add: w_engine_def)
qed

section \<open>Definitions without a template\<close>

text \<open>
  C5. For a definition \<open>D\<close> whose template payload is \<open>undefined\<close>, \<open>null\<close> or the
  empty string, whatever its other fields: \<open>getElementTemplate\<close> on an engine built by
  the constructor and used by any calls since returns \<open>noViewTemplate\<close>, as does
  \<open>templateFromSource\<close> with no change of state; its \<open>renderContext\<close> is \<open>null\<close>, and
  its \<open>render\<close> sets \<open>$nodes\<close> of the renderable to the empty sequence and \<open>$context\<close>
  to \<open>null\<close>.
\<close>

theorem no_template_gives_noViewTemplate:
  assumes "\<not> has_template (template (defs E D))"
    and "s = run E before (RenderingEngine_new cont cs)"
  shows "getElementTemplate E s (Val D) ct
           = Inr (Val noViewTemplate,
                  if templateLookup s D = None
                  then s\<lparr> templateLookup := (templateLookup s)(D \<mapsto> noViewTemplate) \<rparr> else s)
       \<and> templateFromSource s (Val (i, defs E D)) pc = Inr (noViewTemplate, s)
       \<and> renderContext noViewTemplate = Null
       \<and> nodes (render R noViewTemplate x host parts h x) = Val NodeSequence_empty
       \<and> o_context (render R noViewTemplate x host parts h x) = Null"
proof -
  have "no_view_cached E s"
    unfolding assms(2) using new_no_view_cached run_no_view_cached by blast
  then have c: "templateLookup s D = Some t \<Longrightarrow> t = noViewTemplate" for t
    using assms(1) unfolding no_view_cached_def by blast
  have 1: "getElementTemplate E s (Val D) ct
           = Inr (Val noViewTemplate,
                  if templateLookup s D = None
                  then s\<lparr> templateLookup := (templateLookup s)(D \<mapsto> noViewTemplate) \<rparr> else s)"
  proof (cases "templateLookup s D")
    case None
    then show ?thesis
      by (simp add: getElementTemplate_def templateFromSource_no_view [OF assms(1)])
  next
    case (Some t)
    with c show ?thesis by (simp add: getElementTemplate_def)
  qed
  have 2: "templateFromSource s (Val (i, defs E D)) pc = Inr (noViewTemplate, s)"
    using assms(1) by (rule templateFromSource_no_view)
  from 1 2 show ?thesis by (simp add: Let_def)
qed

theorem no_template_gives_noViewTemplate_witness:
  "getElementTemplate w_env w_engine (Val 1) (Val 5)
     = Inr (Val noViewTemplate, w_engine\<lparr> templateLookup := (templateLookup w_engine)(1 \<mapsto> noViewTemplate) \<rparr>)
   \<and> templateFromSource w_engine (Val (Normalized 1, w_plain)) Null = Inr (noViewTemplate, w_engine)"
proof -
  have a: "\<not> has_template (template (defs w_env 1))"
    by (simp add: w_env_def w_plain_def)
  have b: "w_engine = run w_env [] (RenderingEngine_new (Container 0) [w_compiler])"
    by (simp add: w_engine_def)
  have c: "templateLookup w_engine 1 = None" "defs w_env 1 = w_plain"
    by (simp_all add: w_engine_def RenderingEngine_new_def w_env_def)
  from no_template_gives_noViewTemplate [OF a b, of "Val 5" "Normalized 1" Null] c
  show ?thesis by simp
qed

section \<open>Cached view factories\<close>

text \<open>
  C9. If \<open>getViewFactory(D, c1)\<close> returns, it returns a factory, and after any further
  calls \<open>getViewFactory(D, c2)\<close> returns that same factory for every \<open>c2\<close> and leaves
  the state as it is. If the first call was the one that built the factory and its
  template is a compiled one, the parent of that template's render context is still
  \<open>c1\<close> (the engine's container when \<open>c1\<close> is falsy).
\<close>

theorem getViewFactory_cache_hit:
  assumes "getViewFactory E s (Val D) c1 = Inr (r, s')"
    and "s'' = run E after s'"
  shows "\<exists>f. r = Val f \<and> getViewFactory E s'' (Val D) c2 = Inr (Val f, s'')
           \<and> (factoryLookup s D = None \<longrightarrow>
                (\<forall>t. vf_template f = Compiled t \<longrightarrow>
                   (\<exists>rc. contexts s'' (ct_renderContext t) = Some rc
                        \<and> parent rc = or_ctx c1 (container s))))"
proof -
  have e: "extends s' s''" unfolding assms(2) by (rule run_extends)
  from assms(1) show ?thesis
  proof (cases rule: getViewFactory_cases)
    case (hit f)
    with e have "factoryLookup s'' D = Some f"
      by (auto simp add: extends_def map_le_def dom_def)
    then have "getViewFactory E s'' (Val D) c2 = Inr (Val f, s'')"
      by (simp add: getViewFactory_def)
    with hit show ?thesis by simp
  next
    case (miss t s1 f)
    have "factoryLookup s' D = Some f" by (simp add: miss(5))
    with e have "factoryLookup s'' D = Some f"
      by (auto simp add: extends_def map_le_def dom_def)
    then have g: "getViewFactory E s'' (Val D) c2 = Inr (Val f, s'')"
      by (simp add: getViewFactory_def)
    have "\<exists>rc. contexts s'' (ct_renderContext ct) = Some rc \<and> parent rc = or_ctx c1 (container s)"
      if "vf_template f = Compiled ct" for ct
    proof -
      from that have "t = Compiled ct" by (simp add: miss(3))
      with templateFromSource_effect [OF miss(2)] obtain rc where
        lt: "ct_renderContext ct < next_ref s1" and rc: "contexts s1 (ct_renderContext ct) = Some rc"
        and p: "parent rc = or_ctx c1 (container s)" by blast
      from lt have "ct_renderContext ct < next_ref s'" by (simp add: miss(5))
      with e have "same_parent (contexts s' (ct_renderContext ct)) (contexts s'' (ct_renderContext ct))"
        by (simp add: extends_def)
      with rc p show ?thesis by (simp add: miss(5) same_parent_Some)
    qed
    with g miss(4) show ?thesis by blast
  qed
qed

lemma w_factory_call:
  "\<exists>f s' t. getViewFactory w_env w_engine (Val 0) (Val (Child 4)) = Inr (Val f, s')
     \<and> vf_template f = Compiled t"
  by (simp add: getViewFactory_def templateFromSource_def w_env_def w_engine_def
      RenderingEngine_new_def w_definition_def w_compiler_def defaultCompilerName_def
      CompiledTemplate_new_def createRenderContext_def Let_def)

theorem getViewFactory_cache_hit_witness:
  "\<exists>f s' t rc. getViewFactory w_env w_engine (Val 0) (Val (Child 4)) = Inr (Val f, s')
     \<and> getViewFactory w_env s' (Val 0) (Val (Container 9)) = Inr (Val f, s')
     \<and> factoryLookup w_engine 0 = None
     \<and> vf_template f = Compiled t
     \<and> contexts s' (ct_renderContext t) = Some rc \<and> parent rc = Child 4"
proof -
  obtain f s' t where f: "getViewFactory w_env w_engine (Val 0) (Val (Child 4)) = Inr (Val f, s')"
    and t: "vf_template f = Compiled t"
    using w_factory_call by blast
  have n: "factoryLookup w_engine 0 = None"
    by (simp add: w_engine_def RenderingEngine_new_def)
  have b: "s' = run w_env [] s'" by simp
  from getViewFactory_cache_hit [OF f b, of "Val (Container 9)"] n t f show ?thesis
    by auto
qed

end
